theory Spec2Isabelle
  imports Main "HOL-Library.Word" "HOL-Library.Char_ord"
begin

section \<open>Sizes, pointers and memory\<close>

text \<open>
  \<^verbatim>\<open>typedef std::size_t size_type\<close>: an unsigned machine integer, here 64 bits wide.
  Arithmetic on it wraps around, as \<^verbatim>\<open>--length\<close> and \<^verbatim>\<open>size - pos\<close> do in the source.
\<close>

type_synonym size_type = "64 word"

text \<open>
  \<^verbatim>\<open>const value_type*\<close>: an address, counted in cells of the character type. The null
  pointer is address 0. Memory maps every address to the character stored there; the
  class never writes through its pointer, so memory only changes when an owned string
  is allocated.
\<close>

type_synonym pointer = nat

type_synonym 'c memory = "pointer \<Rightarrow> 'c"

definition nullptr :: pointer where
  "nullptr = 0"

text \<open>\<^verbatim>\<open>static const size_type npos = -1\<close>\<close>

definition npos :: size_type where
  "npos = - 1"

section \<open>The bounds-check policy\<close>

text \<open>
  Modelled from the spec: the template parameter \<^verbatim>\<open>Assert\<close> and its static member
  \<^verbatim>\<open>out_of_range_assert(predicate, message)\<close> come from the headers \<^verbatim>\<open>assert/*.hpp\<close>,
  which are not among the sources. The spec describes the policy as a stateless
  strategy that, given a boolean condition and a descriptive message, decides the
  outcome when the condition is false. A policy is therefore the function from the
  message to that outcome: \<open>None\<close> when execution goes on, \<open>Some e\<close> when the error
  \<open>e\<close> is raised. It is consulted only when the condition is false.
\<close>

type_synonym 'e assert_type = "string \<Rightarrow> 'e option"

definition out_of_range_assert :: "'e assert_type \<Rightarrow> bool \<Rightarrow> string \<Rightarrow> 'e option" where
  "out_of_range_assert A cond msg = (if cond then None else A msg)"

text \<open>Two instances: the default \<^verbatim>\<open>assert::empty_assert\<close>, which checks nothing, and a
  policy that raises the message it is given.\<close>

definition empty_assert :: "'e assert_type" where
  "empty_assert msg = None"

definition raising_assert :: "string assert_type" where
  "raising_assert msg = Some msg"

section \<open>The class \<^verbatim>\<open>basic_substring\<close>\<close>

text \<open>The two private members, \<^verbatim>\<open>const_pointer start\<close> and \<^verbatim>\<open>size_type length\<close>.\<close>

record basic_substring =
  start :: pointer
  length' :: size_type

subsection \<open>Constructors\<close>

text \<open>\<^verbatim>\<open>basic_substring()\<close>: both members are value-initialised.\<close>

definition basic_substring_default :: basic_substring where
  "basic_substring_default = \<lparr>start = nullptr, length' = 0\<rparr>"

text \<open>\<^verbatim>\<open>basic_substring(const charT* s, size_type n)\<close>\<close>

definition basic_substring_ptr :: "pointer \<Rightarrow> size_type \<Rightarrow> basic_substring" where
  "basic_substring_ptr s n = \<lparr>start = s, length' = n\<rparr>"

subsection \<open>Observers\<close>

definition begin_it :: "basic_substring \<Rightarrow> pointer" where
  "begin_it v = start v"

definition end_it :: "basic_substring \<Rightarrow> pointer" where
  "end_it v = start v + unat (length' v)"

definition size' :: "basic_substring \<Rightarrow> size_type" where
  "size' v = length' v"

text \<open>\<^verbatim>\<open>bool empty() const { return length; }\<close>: the conversion of a \<^verbatim>\<open>size_type\<close> to
  \<^verbatim>\<open>bool\<close> is true exactly for the non-zero values.\<close>

definition empty' :: "basic_substring \<Rightarrow> bool" where
  "empty' v = (length' v \<noteq> 0)"

definition data :: "basic_substring \<Rightarrow> pointer" where
  "data v = start v"

text \<open>\<^verbatim>\<open>at\<close> hands the policy the condition \<^verbatim>\<open>less(pos, size())\<close> with the message
  \<^verbatim>\<open>"pos >= size"\<close>, then reads \<^verbatim>\<open>start[pos]\<close>.\<close>

definition at :: "'e assert_type \<Rightarrow> 'c memory \<Rightarrow> basic_substring \<Rightarrow> size_type \<Rightarrow> 'e + 'c" where
  "at A mem v pos =
     (case out_of_range_assert A (pos < size' v) ''pos >= size'' of
        Some e \<Rightarrow> Inl e
      | None \<Rightarrow> Inr (mem (start v + unat pos)))"

subsection \<open>Modifiers\<close>

definition clear :: "basic_substring \<Rightarrow> basic_substring" where
  "clear v = v\<lparr>length' := 0\<rparr>"

text \<open>\<^verbatim>\<open>++start; --length;\<close>\<close>

definition pop_front :: "basic_substring \<Rightarrow> basic_substring" where
  "pop_front v = v\<lparr>start := start v + 1, length' := length' v - 1\<rparr>"

text \<open>\<^verbatim>\<open>--length;\<close>\<close>

definition pop_back :: "basic_substring \<Rightarrow> basic_substring" where
  "pop_back v = v\<lparr>length' := length' v - 1\<rparr>"

subsection \<open>Sub-ranges\<close>

text \<open>
  \<^verbatim>\<open>basic_substring(const basic_substring& substring, size_type pos, size_type n)\<close>:
  the policy is handed \<^verbatim>\<open>less_equal(pos, size)\<close> with the message \<^verbatim>\<open>"pos > size"\<close>;
  then \<^verbatim>\<open>start = substring.begin() + pos\<close> and \<^verbatim>\<open>length = std::min(n, size - pos)\<close>.
\<close>

definition basic_substring_sub ::
  "'e assert_type \<Rightarrow> basic_substring \<Rightarrow> size_type \<Rightarrow> size_type \<Rightarrow> 'e + basic_substring" where
  "basic_substring_sub A substring pos n =
     (let sz = size' substring in
      case out_of_range_assert A (pos \<le> sz) ''pos > size'' of
        Some e \<Rightarrow> Inl e
      | None \<Rightarrow> Inr \<lparr>start = begin_it substring + unat pos, length' = min n (sz - pos)\<rparr>)"

text \<open>\<^verbatim>\<open>substr(pos, n)\<close> returns \<^verbatim>\<open>basic_substring(*this, pos, n)\<close>.\<close>

definition substr ::
  "'e assert_type \<Rightarrow> basic_substring \<Rightarrow> size_type \<Rightarrow> size_type \<Rightarrow> 'e + basic_substring" where
  "substr A v pos n = basic_substring_sub A v pos n"

subsection \<open>Views of literal arrays\<close>

text \<open>\<^verbatim>\<open>make_substring(const charT (&str)[N])\<close> returns \<^verbatim>\<open>basic_substring(str, N - 1)\<close>:
  the array's last cell, the terminator of a string literal, is left out.\<close>

definition make_substring :: "pointer \<Rightarrow> size_type \<Rightarrow> basic_substring" where
  "make_substring str N = basic_substring_ptr str (N - 1)"

section \<open>Owned strings\<close>

text \<open>
  \<^verbatim>\<open>std::basic_string\<close> belongs to the standard library. The class uses three things
  of it: \<^verbatim>\<open>data()\<close>, \<^verbatim>\<open>size()\<close> and the constructor from a pointer and a count, which
  copies that many characters into storage of the string's own. An owned string is
  here the address of its storage and its size; the characters are in memory.
\<close>

record basic_string =
  s_data :: pointer
  s_size :: size_type

text \<open>\<open>place a cs mem\<close> is the memory \<open>mem\<close> with the characters \<open>cs\<close> stored from
  address \<open>a\<close> on.\<close>

definition place :: "pointer \<Rightarrow> 'c list \<Rightarrow> 'c memory \<Rightarrow> 'c memory" where
  "place a cs mem = (\<lambda>p. if a \<le> p \<and> p < a + length cs then cs ! (p - a) else mem p)"

text \<open>
  \<^verbatim>\<open>std::basic_string(const charT* s, size_type n, const Allocator&)\<close>: the allocation
  strategy supplies the storage, at address \<open>a\<close>, and the \<open>n\<close> characters from \<open>s\<close> on
  are copied there. (The terminator the library keeps behind them lies outside
  \<^verbatim>\<open>[data(), data() + size())\<close> and is left out.)
\<close>

definition basic_string_ptr :: "'c memory \<Rightarrow> pointer \<Rightarrow> pointer \<Rightarrow> size_type \<Rightarrow> 'c memory \<times> basic_string" where
  "basic_string_ptr mem a s n =
     (place a (map mem [s ..< s + unat n]) mem, \<lparr>s_data = a, s_size = n\<rparr>)"

text \<open>\<^verbatim>\<open>to_string\<close> returns \<^verbatim>\<open>std::basic_string(start, length, allocator)\<close>.\<close>

definition to_string :: "'c memory \<Rightarrow> pointer \<Rightarrow> basic_substring \<Rightarrow> 'c memory \<times> basic_string" where
  "to_string mem a v = basic_string_ptr mem a (start v) (length' v)"

text \<open>\<^verbatim>\<open>explicit basic_substring(const std::basic_string& s)\<close> takes \<^verbatim>\<open>s.data()\<close> and
  \<^verbatim>\<open>s.size()\<close>.\<close>

definition basic_substring_str :: "basic_string \<Rightarrow> basic_substring" where
  "basic_substring_str s = \<lparr>start = s_data s, length' = s_size s\<rparr>"

section \<open>Comparison\<close>

text \<open>\<^verbatim>\<open>std::char_traits::compare(s1, s2, n)\<close>: the first \<open>n\<close> characters of both ranges are
  compared in order; the result is negative, zero or positive.\<close>

fun compare :: "'c::linorder memory \<Rightarrow> pointer \<Rightarrow> pointer \<Rightarrow> nat \<Rightarrow> int" where
  "compare mem s1 s2 0 = 0"
| "compare mem s1 s2 (Suc n) =
     (if mem s1 < mem s2 then - 1
      else if mem s2 < mem s1 then 1
      else compare mem (s1 + 1) (s2 + 1) n)"

text \<open>
  The source writes \<^verbatim>\<open>operator ==\<close> as
  \<^verbatim>\<open>length == rhs.length() && traits_type::compare(start, rhs.start, length) == 0\<close>.
  The class has the data member \<^verbatim>\<open>size_type length\<close> and no member function of that
  name, so \<^verbatim>\<open>rhs.length()\<close> calls a value of an integer type: the operator, and
  \<^verbatim>\<open>operator !=\<close> which calls it, cannot be instantiated, and no comparison of two
  views compiles. The two definitions below are the operators with \<^verbatim>\<open>rhs.length\<close> read
  as the member: what they are written to compute, not what a program can run.
\<close>

definition operator_eq :: "'c::linorder memory \<Rightarrow> basic_substring \<Rightarrow> basic_substring \<Rightarrow> bool" where
  "operator_eq mem v rhs =
     (length' v = length' rhs \<and> compare mem (start v) (start rhs) (unat (length' v)) = 0)"

definition operator_ne :: "'c::linorder memory \<Rightarrow> basic_substring \<Rightarrow> basic_substring \<Rightarrow> bool" where
  "operator_ne mem v rhs = (\<not> operator_eq mem v rhs)"

section \<open>The characters a view denotes\<close>

text \<open>The characters met by iterating from \<^verbatim>\<open>begin()\<close> up to \<^verbatim>\<open>end()\<close>.\<close>

definition chars :: "'c memory \<Rightarrow> basic_substring \<Rightarrow> 'c list" where
  "chars mem v = map mem [begin_it v ..< end_it v]"

text \<open>A memory holding the array \<^verbatim>\<open>"abc"\<close> at address 100 and the array \<^verbatim>\<open>"hello"\<close> at
  address 200, each with its terminator, and \<^verbatim>\<open>'?'\<close> everywhere else.\<close>

definition example_memory :: "char memory" where
  "example_memory =
     place 100 (''abc'' @ [CHR 0x00]) (place 200 (''hello'' @ [CHR 0x00]) (\<lambda>p. CHR ''?''))"

section \<open>Basic facts\<close>

lemma length_chars: "length (chars mem v) = unat (size' v)"
  by (simp add: chars_def begin_it_def end_it_def size'_def)

lemma nth_chars:
  "i < unat (size' v) \<Longrightarrow> chars mem v ! i = mem (start v + i)"
  by (simp add: chars_def begin_it_def end_it_def size'_def)

lemma chars_basic_substring_ptr:
  "chars mem (basic_substring_ptr s n) = map mem [s ..< s + unat n]"
  by (simp add: chars_def begin_it_def end_it_def basic_substring_ptr_def)

lemma map_place_inside: "map (place a cs mem) [a ..< a + length cs] = cs"
  by (rule nth_equalityI) (simp_all add: place_def)

lemma place_outside: "p < a \<or> a + length cs \<le> p \<Longrightarrow> place a cs mem p = mem p"
  by (auto simp: place_def)

lemma map_place_outside:
  "j \<le> a \<or> a + length cs \<le> i \<Longrightarrow> map (place a cs mem) [i ..< j] = map mem [i ..< j]"
  by (auto simp: place_def)

lemma compare_eq_0_iff:
  "compare mem s1 s2 n = 0 \<longleftrightarrow> map mem [s1 ..< s1 + n] = map mem [s2 ..< s2 + n]"
proof (induction n arbitrary: s1 s2)
  case 0
  show ?case by simp
next
  case (Suc n)
  have split1: "[s1 ..< s1 + Suc n] = s1 # [s1 + 1 ..< (s1 + 1) + n]"
    by (simp add: upt_conv_Cons)
  have split2: "[s2 ..< s2 + Suc n] = s2 # [s2 + 1 ..< (s2 + 1) + n]"
    by (simp add: upt_conv_Cons)
  show ?case
    unfolding split1 split2 using Suc.IH [of "s1 + 1" "s2 + 1"] by auto
qed

text \<open>With \<^verbatim>\<open>rhs.length\<close> read as the member, the operators compare contents.\<close>

lemma operator_eq_iff_chars:
  "operator_eq mem a b \<longleftrightarrow> chars mem a = chars mem b"
proof
  assume "operator_eq mem a b"
  then show "chars mem a = chars mem b"
    by (auto simp: operator_eq_def compare_eq_0_iff chars_def begin_it_def end_it_def)
next
  assume eq: "chars mem a = chars mem b"
  then have "length (chars mem a) = length (chars mem b)" by simp
  then have len: "length' a = length' b"
    by (simp add: length_chars size'_def word_unat_eq_iff)
  from eq have "map mem [start a ..< start a + unat (length' a)] =
      map mem [start b ..< start b + unat (length' b)]"
    by (simp add: chars_def begin_it_def end_it_def)
  with len show "operator_eq mem a b"
    by (simp add: operator_eq_def compare_eq_0_iff)
qed

lemma operator_ne_iff_chars:
  "operator_ne mem a b \<longleftrightarrow> chars mem a \<noteq> chars mem b"
  by (simp add: operator_ne_def operator_eq_iff_chars)

lemma chars_range: "chars mem v = map mem [start v ..< start v + unat (size' v)]"
  by (simp add: chars_def begin_it_def end_it_def size'_def)

lemma basic_substring_eta: "\<lparr>start = start v, length' = length' v\<rparr> = v"
  by (cases v) simp

lemma size'_make_substring: "size' (make_substring str N) = N - 1"
  by (simp add: size'_def make_substring_def basic_substring_ptr_def)

lemma start_make_substring: "start (make_substring str N) = str"
  by (simp add: make_substring_def basic_substring_ptr_def)

lemma chars_abc: "chars example_memory (make_substring 100 4) = ''abc''"
  by (simp add: chars_def begin_it_def end_it_def make_substring_def basic_substring_ptr_def
      example_memory_def place_def upt_conv_Cons)

lemma chars_hello: "chars example_memory (make_substring 200 6) = ''hello''"
  by (simp add: chars_def begin_it_def end_it_def make_substring_def basic_substring_ptr_def
      example_memory_def place_def upt_conv_Cons)

section \<open>Emptiness\<close>

text \<open>
  C1 reads: for every view, \<^verbatim>\<open>empty()\<close> returns true exactly when \<^verbatim>\<open>size() == 0\<close>.
  The source returns \<^verbatim>\<open>length\<close> converted to \<^verbatim>\<open>bool\<close>, so the query is true exactly when
  the size is \<^emph>\<open>not\<close> zero: it is false on the default-constructed view, whose size is 0,
  and true on the view of \<^verbatim>\<open>"abc"\<close>, whose size is 3.
\<close>

theorem empty_true_iff_size_nonzero:
  "(empty' v \<longleftrightarrow> size' v \<noteq> 0) \<and>
   size' basic_substring_default = 0 \<and> \<not> empty' basic_substring_default \<and>
   size' (make_substring 100 4) = 3 \<and> empty' (make_substring 100 4)"
  by (simp add: size'_def empty'_def basic_substring_default_def make_substring_def
      basic_substring_ptr_def)

text \<open>
  C6 reads: on a view of size 2, \<^verbatim>\<open>pop_front\<close> followed by \<^verbatim>\<open>pop_back\<close> leaves a view of
  size 0, on which \<^verbatim>\<open>empty()\<close> returns true. The size is 0 indeed, but \<^verbatim>\<open>empty()\<close>
  returns false there.
\<close>

theorem pop_front_pop_back_two:
  "size' v = 2 \<Longrightarrow>
     size' (pop_back (pop_front v)) = 0 \<and> \<not> empty' (pop_back (pop_front v))"
  by (simp add: size'_def empty'_def pop_back_def pop_front_def)

theorem pop_front_pop_back_two_witness:
  "size' (make_substring 300 3) = 2 \<and>
   size' (pop_back (pop_front (make_substring 300 3))) = 0 \<and>
   \<not> empty' (pop_back (pop_front (make_substring 300 3)))"
proof -
  have two: "size' (make_substring 300 3) = 2"
    by (simp add: size'_make_substring)
  from two pop_front_pop_back_two [OF two] show ?thesis by simp
qed

section \<open>Sub-ranges\<close>

lemma substr_in_range:
  "pos \<le> size' v \<Longrightarrow>
     substr A v pos n = Inr \<lparr>start = start v + unat pos, length' = min n (size' v - pos)\<rparr>"
  by (simp add: substr_def basic_substring_sub_def out_of_range_assert_def begin_it_def)

lemma substr_out_of_range:
  "size' v < pos \<Longrightarrow>
     substr A v pos n =
       (case A ''pos > size'' of
          Some e \<Rightarrow> Inl e
        | None \<Rightarrow> Inr \<lparr>start = start v + unat pos, length' = min n (size' v - pos)\<rparr>)"
  by (auto simp: substr_def basic_substring_sub_def out_of_range_assert_def begin_it_def
      Let_def split: option.splits)

text \<open>Under the default policy nothing is checked: past the end, the subtraction
  \<^verbatim>\<open>size - pos\<close> wraps around.\<close>

lemma substr_empty_assert:
  "substr empty_assert v pos n =
     Inr \<lparr>start = start v + unat pos, length' = min n (size' v - pos)\<rparr>"
  by (auto simp: substr_def basic_substring_sub_def out_of_range_assert_def begin_it_def
      empty_assert_def Let_def)

text \<open>The view of \<^verbatim>\<open>"hello"\<close>: \<^verbatim>\<open>substr(1, 3)\<close> has size 3 and denotes \<^verbatim>\<open>"ell"\<close>.\<close>

lemma substr_hello_ell:
  "\<exists>w. substr raising_assert (make_substring 200 6) 1 3 = Inr w \<and> size' w = 3 \<and>
     chars example_memory w = ''ell''"
proof -
  let ?w = "\<lparr>start = 201, length' = 3 :: size_type\<rparr>"
  have "(1 :: size_type) \<le> size' (make_substring 200 6)"
    by (simp add: size'_make_substring)
  then have "substr raising_assert (make_substring 200 6) 1 3 = Inr ?w"
    by (simp add: substr_in_range size'_make_substring start_make_substring)
  moreover have "size' ?w = 3"
    by (simp add: size'_def)
  moreover have "chars example_memory ?w = ''ell''"
    by (simp add: chars_range size'_def example_memory_def place_def upt_conv_Cons)
  ultimately show ?thesis by blast
qed

text \<open>
  C2: for every view \<open>v\<close>, every \<open>pos \<le> size v\<close> and every \<open>n\<close>, \<^verbatim>\<open>substr(pos, n)\<close>, which
  is the sub-range constructor, yields a view of length \<open>min n (size v - pos)\<close>, whatever
  the policy. Read as natural numbers, the subtraction does not wrap; and when
  \<open>pos + n\<close> exceeds the size, the length is \<open>size v - pos\<close>.
\<close>

theorem substr_length_clamped:
  assumes "pos \<le> size' v"
  shows "\<exists>w. substr A v pos n = Inr w \<and> basic_substring_sub A v pos n = Inr w \<and>
           size' w = min n (size' v - pos) \<and>
           unat (size' w) = min (unat n) (unat (size' v) - unat pos) \<and>
           (unat (size' v) < unat pos + unat n \<longrightarrow> size' w = size' v - pos)"
proof -
  let ?w = "\<lparr>start = start v + unat pos, length' = min n (size' v - pos)\<rparr>"
  have sub: "unat (size' v - pos) = unat (size' v) - unat pos"
    using assms by (simp add: unat_sub)
  have r: "substr A v pos n = Inr ?w"
    using assms by (rule substr_in_range)
  have sz: "size' ?w = min n (size' v - pos)"
    by (simp add: size'_def)
  have un: "unat (min n (size' v - pos)) = min (unat n) (unat (size' v) - unat pos)"
    by (simp add: min_def word_le_nat_alt sub)
  have big: "min n (size' v - pos) = size' v - pos" if "unat (size' v) < unat pos + unat n"
  proof -
    from assms have "unat pos \<le> unat (size' v)" by (simp add: word_le_nat_alt)
    with that have "unat (size' v) - unat pos < unat n" by arith
    then have "\<not> n \<le> size' v - pos" by (simp add: word_le_nat_alt sub)
    then show ?thesis by (simp add: min_def)
  qed
  from r sz un big show ?thesis
    by (auto simp: substr_def)
qed

theorem substr_length_clamped_witness:
  "(1 :: size_type) \<le> size' (make_substring 200 6) \<and>
   (\<exists>w. substr raising_assert (make_substring 200 6) 1 npos = Inr w \<and> size' w = 4)"
proof -
  have le: "(1 :: size_type) \<le> size' (make_substring 200 6)"
    by (simp add: size'_make_substring)
  from substr_length_clamped [OF le, of raising_assert npos]
  obtain w where "substr raising_assert (make_substring 200 6) 1 npos = Inr w"
    and "size' w = min npos (size' (make_substring 200 6) - 1)"
    by blast
  then have "substr raising_assert (make_substring 200 6) 1 npos = Inr w \<and> size' w = 4"
    by (simp add: size'_make_substring npos_def)
  with le show ?thesis by blast
qed

text \<open>
  C3: \<^verbatim>\<open>substr(pos, n)\<close> ends in the policy's error \<open>e\<close> exactly when \<open>pos > size v\<close> and
  the policy, consulted with the message \<^verbatim>\<open>"pos > size"\<close>, raises \<open>e\<close>; when
  \<open>pos \<le> size v\<close> the policy is not consulted and a view is returned.
\<close>

theorem substr_policy_iff:
  "(substr A v pos n = Inl e \<longleftrightarrow> size' v < pos \<and> A ''pos > size'' = Some e) \<and>
   (pos \<le> size' v \<longrightarrow> (\<exists>w. substr A v pos n = Inr w))"
proof (cases "pos \<le> size' v")
  case True
  then have "\<not> size' v < pos" by (simp add: not_less)
  with True show ?thesis by (simp add: substr_in_range)
next
  case False
  then have "size' v < pos" by simp
  then show ?thesis
    by (auto simp: substr_out_of_range split: option.splits)
qed

theorem substr_policy_iff_witness:
  "substr raising_assert (make_substring 200 6) 10 npos = Inl ''pos > size'' \<and>
   (\<exists>w. substr raising_assert (make_substring 200 6) 5 npos = Inr w)"
proof -
  have "substr raising_assert (make_substring 200 6) 10 npos = Inl ''pos > size''"
    using substr_policy_iff [of raising_assert "make_substring 200 6" 10 npos "''pos > size''"]
    by (simp add: size'_make_substring raising_assert_def)
  moreover have "\<exists>w. substr raising_assert (make_substring 200 6) 5 npos = Inr w"
    using substr_policy_iff [of raising_assert "make_substring 200 6" 5 npos "''pos > size''"]
    by (simp add: size'_make_substring)
  ultimately show ?thesis by blast
qed

text \<open>
  C8: for every view \<open>v\<close>, \<^verbatim>\<open>substr(0, size())\<close> yields \<open>v\<close> itself, under every policy: the
  same start and the same length, hence the same characters.
\<close>

theorem substr_whole:
  "substr A v 0 (size' v) = Inr v \<and>
   (\<exists>w. substr A v 0 (size' v) = Inr w \<and> size' w = size' v \<and> chars mem w = chars mem v)"
  by (simp add: substr_in_range size'_def basic_substring_eta)

section \<open>Checked access\<close>

lemma at_in_range: "pos < size' v \<Longrightarrow> at A mem v pos = Inr (mem (start v + unat pos))"
  by (simp add: at_def out_of_range_assert_def)

lemma at_out_of_range:
  "size' v \<le> pos \<Longrightarrow>
     at A mem v pos =
       (case A ''pos >= size'' of Some e \<Rightarrow> Inl e | None \<Rightarrow> Inr (mem (start v + unat pos)))"
  by (auto simp: at_def out_of_range_assert_def split: option.splits)

text \<open>
  C4: \<^verbatim>\<open>at(pos)\<close> ends in the policy's error \<open>e\<close> exactly when \<open>pos \<ge> size v\<close> and the
  policy, consulted with the message \<^verbatim>\<open>"pos >= size"\<close>, raises \<open>e\<close>; when \<open>pos < size v\<close>
  it returns the character at position \<open>pos\<close> of the viewed range.
\<close>

theorem at_policy_iff:
  "(at A mem v pos = Inl e \<longleftrightarrow> size' v \<le> pos \<and> A ''pos >= size'' = Some e) \<and>
   (pos < size' v \<longrightarrow> at A mem v pos = Inr (chars mem v ! unat pos))"
proof (cases "pos < size' v")
  case True
  then have "unat pos < unat (size' v)" by (simp add: word_less_nat_alt)
  then have "chars mem v ! unat pos = mem (start v + unat pos)" by (rule nth_chars)
  moreover from True have "\<not> size' v \<le> pos" by (simp add: not_le)
  ultimately show ?thesis using True by (simp add: at_in_range)
next
  case False
  then have "size' v \<le> pos" by simp
  with False show ?thesis
    by (auto simp: at_out_of_range split: option.splits)
qed

theorem at_policy_iff_witness:
  "chars example_memory (make_substring 100 4) = ''abc'' \<and>
   at raising_assert example_memory (make_substring 100 4) 1 = Inr CHR ''b'' \<and>
   at raising_assert example_memory (make_substring 100 4) 5 = Inl ''pos >= size''"
proof -
  have "at raising_assert example_memory (make_substring 100 4) 1 = Inr CHR ''b''"
    using at_policy_iff [of raising_assert example_memory "make_substring 100 4" 1 "''x''"]
    by (simp add: size'_make_substring chars_abc)
  moreover have "at raising_assert example_memory (make_substring 100 4) 5 = Inl ''pos >= size''"
    using at_policy_iff [of raising_assert example_memory "make_substring 100 4" 5 "''pos >= size''"]
    by (simp add: size'_make_substring raising_assert_def)
  ultimately show ?thesis by (simp add: chars_abc)
qed

section \<open>Conversion to an owned string\<close>

text \<open>
  C7: \<^verbatim>\<open>to_string()\<close> builds a string in the storage \<open>a\<close> the allocation strategy
  supplies, of the view's size, holding the view's characters; the view of that string
  has the size and the characters of the original. When the string's storage does not
  overlap the characters of the original view, these are left as they were, so that
  both views denote the same characters in the memory after the call.
\<close>

theorem to_string_round_trip:
  assumes "to_string mem a v = (mem', s)"
  shows "s_data s = a \<and> size' (basic_substring_str s) = size' v \<and>
         chars mem' (basic_substring_str s) = chars mem v \<and>
         (a + unat (size' v) \<le> start v \<or> start v + unat (size' v) \<le> a \<longrightarrow>
            chars mem' v = chars mem v \<and> chars mem' (basic_substring_str s) = chars mem' v)"
proof -
  let ?cs = "map mem [start v ..< start v + unat (size' v)]"
  let ?w = "basic_substring_str s"
  from assms have mem': "mem' = place a ?cs mem" and s: "s = \<lparr>s_data = a, s_size = length' v\<rparr>"
    by (simp_all add: to_string_def basic_string_ptr_def size'_def)
  have w: "start ?w = a" "size' ?w = size' v"
    by (simp_all add: s basic_substring_str_def size'_def)
  have "chars mem' ?w = map (place a ?cs mem) [a ..< a + length ?cs]"
    by (simp add: chars_range w mem')
  also have "\<dots> = ?cs"
    by (rule map_place_inside)
  finally have copy: "chars mem' ?w = chars mem v"
    by (simp add: chars_range)
  have keep: "chars mem' v = chars mem v"
    if "a + unat (size' v) \<le> start v \<or> start v + unat (size' v) \<le> a"
  proof -
    from that have "start v + unat (size' v) \<le> a \<or> a + length ?cs \<le> start v"
      by auto
    then have "map (place a ?cs mem) [start v ..< start v + unat (size' v)] = ?cs"
      by (rule map_place_outside)
    then show ?thesis by (simp add: chars_range mem')
  qed
  from copy keep w show ?thesis
    by (simp add: s)
qed

theorem to_string_round_trip_witness:
  "\<exists>mem' s. to_string example_memory 300 (make_substring 200 6) = (mem', s) \<and>
     chars mem' (basic_substring_str s) = ''hello'' \<and>
     chars mem' (make_substring 200 6) = ''hello'' \<and> s_data s = 300 \<and>
     size' (basic_substring_str s) = 5"
proof -
  obtain mem' s where eq: "to_string example_memory 300 (make_substring 200 6) = (mem', s)"
    by (cases "to_string example_memory 300 (make_substring 200 6)")
  from to_string_round_trip [OF eq]
  have "chars mem' (basic_substring_str s) = ''hello'' \<and>
     chars mem' (make_substring 200 6) = ''hello'' \<and> s_data s = 300 \<and>
     size' (basic_substring_str s) = 5"
    by (simp add: size'_make_substring start_make_substring chars_hello)
  with eq show ?thesis by blast
qed

section \<open>Clearing and default construction\<close>

text \<open>
  C9: \<^verbatim>\<open>clear()\<close> sets the length to zero and leaves \<^verbatim>\<open>start\<close> as it was, so the view
  denotes no character afterwards; on a view of size 0 it changes nothing.
\<close>

theorem clear_sets_length_only:
  "size' (clear v) = 0 \<and> start (clear v) = start v \<and> chars mem (clear v) = [] \<and>
   (size' v = 0 \<longrightarrow> clear v = v)"
  by (simp add: clear_def size'_def chars_def begin_it_def end_it_def)

theorem clear_sets_length_only_witness:
  "size' (basic_substring_ptr 100 0) = 0 \<and>
   clear (basic_substring_ptr 100 0) = basic_substring_ptr 100 0 \<and>
   size' (clear (make_substring 100 4)) = 0 \<and> start (clear (make_substring 100 4)) = 100 \<and>
   chars example_memory (clear (make_substring 100 4)) = []"
proof -
  have z: "size' (basic_substring_ptr 100 0) = 0"
    by (simp add: size'_def basic_substring_ptr_def)
  from z clear_sets_length_only [of "basic_substring_ptr 100 0" example_memory]
    clear_sets_length_only [of "make_substring 100 4" example_memory]
  show ?thesis by (simp add: start_make_substring)
qed

text \<open>
  C10: the default-constructed view has size 0 and a null \<^verbatim>\<open>start\<close>, which \<^verbatim>\<open>data()\<close>
  returns; \<^verbatim>\<open>begin()\<close> and \<^verbatim>\<open>end()\<close> coincide, so it denotes the empty range in every
  memory.
\<close>

theorem default_view_empty_null:
  "size' basic_substring_default = 0 \<and> data basic_substring_default = nullptr \<and>
   begin_it basic_substring_default = end_it basic_substring_default \<and>
   chars mem basic_substring_default = []"
  by (simp add: basic_substring_default_def size'_def data_def chars_def begin_it_def end_it_def)

end
